theory Spec2Isabelle
  imports Main "HOL-Library.Word"
begin

section \<open>Values shared by the execution core and the shell driver\<close>

text \<open>
  Go's \<^verbatim>\<open>error\<close> interface. \<open>ErrorString msg\<close> is a value made by
  \<^verbatim>\<open>errors.New(msg)\<close> inside package dingo; \<open>External msg\<close> is an error handed back
  by a collaborator (the ssh transport or the local file system). Go compares the two
  kinds by pointer, so a collaborator can never hand back one of the package's own
  \<^verbatim>\<open>errors.New\<close> values; the two constructors keep that apart. Two
  \<^verbatim>\<open>errors.New\<close> values with the same message are identified here.
\<close>

datatype error = ErrorString string | External string

fun Error :: "error \<Rightarrow> string" where
  "Error (ErrorString msg) = msg"
| "Error (External msg) = msg"

text \<open>
  An \<^verbatim>\<open>io.Writer\<close> is a reference: the process streams or an object at an address
  (a caller's writer or a \<^verbatim>\<open>bytes.Buffer\<close>). A nil interface value is \<open>None\<close>.
\<close>

datatype writer = OsStdout | OsStderr | WriterRef nat

datatype reader = OsStdin | StringsReader string | ReaderRef nat

type_synonym TerminalModes = "8 word \<Rightarrow> 32 word option"

text \<open>
  An \<^verbatim>\<open>*ssh.Session\<close>: the number of the session (how many were opened before it on
  this run of the world) and its three stream slots.
\<close>

record session =
  sid :: nat
  Stdin :: "reader option"
  Stdout :: "writer option"
  Stderr :: "writer option"

text \<open>
  Every call that leaves the package: the transport (\<^verbatim>\<open>NewSession\<close>, and the methods
  of a session; \<open>SessionRequestPty s term h w modes\<close> has the argument order of
  \<^verbatim>\<open>ssh.Session.RequestPty\<close>) and the local file system.
\<close>

datatype call =
    NewSession
  | SessionRun session string
  | SessionShell session
  | SessionWait session
  | SessionRequestPty session string int int TerminalModes
  | SessionClose session
  | OsOpen string
  | IoCopy string
  | FileClose string

text \<open>
  What a collaborator answers: it returns nil, returns an error, or panics. A session
  call also writes bytes to the session's \<^verbatim>\<open>Stdout\<close> and \<^verbatim>\<open>Stderr\<close>; for
  \<open>IoCopy\<close> the field \<open>outBytes\<close> is what was read from the file.
\<close>

datatype result = Ok | Fail string | Abort

record response =
  res :: result
  outBytes :: string
  errBytes :: string

text \<open>
  The collaborators are a deterministic function of the calls made so far and the
  current call.
\<close>

type_synonym env = "call list \<Rightarrow> call \<Rightarrow> response"

record world =
  heap :: "writer \<Rightarrow> string"
  nextAddr :: nat
  nextSession :: nat
  trace :: "call list"

datatype 'a outcome = Return 'a | Panic

definition perform :: "env \<Rightarrow> call \<Rightarrow> world \<Rightarrow> response \<times> world" where
  "perform env c w = (env (trace w) c, w\<lparr>trace := trace w @ [c]\<rparr>)"

definition emit :: "writer option \<Rightarrow> string \<Rightarrow> world \<Rightarrow> world" where
  "emit wr bs w =
     (case wr of None \<Rightarrow> w
      | Some a \<Rightarrow> w\<lparr>heap := (heap w)(a := heap w a @ bs)\<rparr>)"

text \<open>A session call: the collaborator answers and its output reaches the bound sinks.\<close>

definition sessionCall :: "env \<Rightarrow> session \<Rightarrow> call \<Rightarrow> world \<Rightarrow> result \<times> world" where
  "sessionCall env s c w =
     (let (r, w1) = perform env c w
      in (res r, emit (Stderr s) (errBytes r) (emit (Stdout s) (outBytes r) w1)))"

text \<open>\<^verbatim>\<open>client.NewSession()\<close>: the answer and, on success, a session with empty slots.\<close>

definition openSession :: "env \<Rightarrow> world \<Rightarrow> result \<times> session \<times> world" where
  "openSession env w =
     (let (r, w1) = perform env NewSession w
      in (res r,
          \<lparr>sid = nextSession w1, Stdin = None, Stdout = None, Stderr = None\<rparr>,
          (case res r of Ok \<Rightarrow> w1\<lparr>nextSession := Suc (nextSession w1)\<rparr> | _ \<Rightarrow> w1)))"

text \<open>
  A deferred \<^verbatim>\<open>Close()\<close>: it runs on every exit path of the enclosing function, its
  error is dropped, and the function's outcome stands unless the close itself panics.
\<close>

definition deferred :: "env \<Rightarrow> call \<Rightarrow> 'a outcome \<times> world \<Rightarrow> 'a outcome \<times> world" where
  "deferred env c ow =
     (let (r, w1) = perform env c (snd ow)
      in (if res r = Abort then Panic else fst ow, w1))"

definition ofResult :: "result \<Rightarrow> error option outcome" where
  "ofResult r = (case r of Ok \<Rightarrow> Return None | Fail e \<Rightarrow> Return (Some (External e)) | Abort \<Rightarrow> Panic)"

text \<open>\<^verbatim>\<open>var b bytes.Buffer\<close>: a fresh, empty buffer.\<close>

definition newBuffer :: "world \<Rightarrow> writer \<times> world" where
  "newBuffer w =
     (WriterRef (nextAddr w),
      w\<lparr>heap := (heap w)(WriterRef (nextAddr w) := []), nextAddr := Suc (nextAddr w)\<rparr>)"

text \<open>
  \<^verbatim>\<open>(*bytes.Buffer).Bytes()\<close> as a \<^verbatim>\<open>[]byte\<close>, where \<open>None\<close> is the nil slice:
  a buffer nothing was written to has a nil backing slice.
\<close>

definition Bytes :: "string \<Rightarrow> string option" where
  "Bytes bs = (if bs = [] then None else Some bs)"

section \<open>Strings\<close>

definition newline :: char where
  "newline = CHR 0x0A"

text \<open>\<^verbatim>\<open>strings.Split(s, "\n")\<close>.\<close>

fun SplitLines :: "string \<Rightarrow> string list" where
  "SplitLines [] = [[]]"
| "SplitLines (c # cs) =
     (if c = newline then [] # SplitLines cs
      else (case SplitLines cs of [] \<Rightarrow> [[c]] | l # ls \<Rightarrow> (c # l) # ls))"

text \<open>
  \<^verbatim>\<open>strings.TrimSpace\<close> on the ASCII white space (tab, line feed, vertical tab, form
  feed, carriage return, space). The multi-byte UTF-8 white space that Go also trims
  is not modelled.
\<close>

definition isSpace :: "char \<Rightarrow> bool" where
  "isSpace c = (c = CHR 0x09 \<or> c = CHR 0x0A \<or> c = CHR 0x0B \<or> c = CHR 0x0C \<or> c = CHR 0x0D \<or> c = CHR 0x20)"

definition TrimSpace :: "string \<Rightarrow> string" where
  "TrimSpace s = rev (dropWhile isSpace (rev (dropWhile isSpace s)))"

text \<open>\<^verbatim>\<open>strings.Contains(s, substr)\<close>.\<close>

fun Contains :: "string \<Rightarrow> string \<Rightarrow> bool" where
  "Contains [] substr = (substr = [])"
| "Contains (c # cs) substr = (take (length substr) (c # cs) = substr \<or> Contains cs substr)"

section \<open>The shell driver's data\<close>

record TerminalConfig =
  Term :: string
  Width :: int
  Height :: int
  Modes :: TerminalModes

definition DefaultTerminalConfig :: TerminalConfig where
  "DefaultTerminalConfig = \<lparr>Term = ''xterm'', Width = 80, Height = 40, Modes = Map.empty\<rparr>"

type_synonym ShellType = "8 word"

definition InteractiveShell :: ShellType where "InteractiveShell = 0"
definition NonInteractiveShell :: ShellType where "NonInteractiveShell = 1"

text \<open>
  The fields of \<^verbatim>\<open>remoteShell\<close>; \<open>terminalConfig\<close> is a pointer (\<open>None\<close> is nil).
  The record of the execution core below has fields of the same names, so the fields
  of this one are written with the record's name: \<open>remoteShell.stdout\<close>.
\<close>

record remoteShell =
  client :: "nat option"
  shellType :: ShellType
  requestPty :: bool
  terminalConfig :: "TerminalConfig option"
  stdin :: "reader option"
  stdout :: "writer option"
  stderr :: "writer option"

section \<open>The execution core (command.go)\<close>

text \<open>\<^verbatim>\<open>type ScriptType byte\<close> with its three constants.\<close>

type_synonym ScriptType = "8 word"

definition CommandLine :: ScriptType where "CommandLine = 0"
definition RawScript :: ScriptType where "RawScript = 1"
definition ScriptFile :: ScriptType where "ScriptFile = 2"

text \<open>The \<^verbatim>\<open>*ssh.Client\<close> is a pointer: \<open>None\<close> is nil.\<close>

record remoteScript =
  client :: "nat option"
  scriptType :: ScriptType
  script :: string
  scriptFile :: string
  err :: "error option"
  stdout :: "writer option"
  stderr :: "writer option"

text \<open>
  \<^verbatim>\<open>runSingleCommand\<close>. Calling \<^verbatim>\<open>NewSession\<close> on a nil client dereferences nil and
  panics before anything reaches the transport.
\<close>

definition runSingleCommand :: "env \<Rightarrow> remoteScript \<Rightarrow> string \<Rightarrow> world \<Rightarrow> error option outcome \<times> world" where
  "runSingleCommand env rs cmd w =
     (if client rs = None then (Panic, w)
      else
        (let (r, s0, w1) = openSession env w
         in (case r of
               Abort \<Rightarrow> (Panic, w1)
             | Fail e \<Rightarrow> (Return (Some (External e)), w1)
             | Ok \<Rightarrow>
                 (let s = s0\<lparr>Stdout := stdout rs, Stderr := stderr rs\<rparr>;
                      (r2, w2) = sessionCall env s (SessionRun s cmd) w1
                  in deferred env (SessionClose s) (ofResult r2, w2)))))"

text \<open>The loop of \<^verbatim>\<open>runCommands\<close> over the lines still to do.\<close>

fun runLines :: "env \<Rightarrow> remoteScript \<Rightarrow> string list \<Rightarrow> world \<Rightarrow> error option outcome \<times> world" where
  "runLines env rs [] w = (Return None, w)"
| "runLines env rs (c # cs) w =
     (let cmd = TrimSpace c
      in if cmd = [] then runLines env rs cs w
         else (case runSingleCommand env rs cmd w of
                 (Return None, w1) \<Rightarrow> runLines env rs cs w1
               | (Return (Some e), w1) \<Rightarrow> (Return (Some e), w1)
               | (Panic, w1) \<Rightarrow> (Panic, w1)))"

definition runCommands :: "env \<Rightarrow> remoteScript \<Rightarrow> world \<Rightarrow> error option outcome \<times> world" where
  "runCommands env rs w = runLines env rs (SplitLines (script rs)) w"

definition runScript :: "env \<Rightarrow> remoteScript \<Rightarrow> world \<Rightarrow> error option outcome \<times> world" where
  "runScript env rs w =
     (if client rs = None then (Panic, w)
      else
        (let (r, s0, w1) = openSession env w
         in (case r of
               Abort \<Rightarrow> (Panic, w1)
             | Fail e \<Rightarrow> (Return (Some (External e)), w1)
             | Ok \<Rightarrow>
                 (let s = s0\<lparr>Stdin := Some (StringsReader (script rs)),
                             Stdout := stdout rs, Stderr := stderr rs\<rparr>;
                      (r2, w2) = sessionCall env s (SessionShell s) w1
                  in deferred env (SessionClose s)
                       (case r2 of
                          Abort \<Rightarrow> (Panic, w2)
                        | Fail e \<Rightarrow> (Return (Some (External e)), w2)
                        | Ok \<Rightarrow>
                            (let (r3, w3) = sessionCall env s (SessionWait s) w2
                             in (ofResult r3, w3)))))))"

text \<open>
  \<^verbatim>\<open>runScriptFile\<close>. The fields \<open>script\<close> and \<open>scriptType\<close> are overwritten for the
  call of \<open>runScript\<close> and written back by two plain assignments after it returns;
  when \<open>runScript\<close> panics those assignments are not reached.
\<close>

definition runScriptFile :: "env \<Rightarrow> remoteScript \<Rightarrow> world \<Rightarrow> error option outcome \<times> remoteScript \<times> world" where
  "runScriptFile env rs w =
     (let (r, w1) = perform env (OsOpen (scriptFile rs)) w
      in (case res r of
            Abort \<Rightarrow> (Panic, rs, w1)
          | Fail e \<Rightarrow> (Return (Some (External e)), rs, w1)
          | Ok \<Rightarrow>
              (let (r2, w2) = perform env (IoCopy (scriptFile rs)) w1
               in (case res r2 of
                     Abort \<Rightarrow>
                       (let (out, w3) = deferred env (FileClose (scriptFile rs)) (Panic, w2)
                        in (out, rs, w3))
                   | Fail e \<Rightarrow>
                       (let (out, w3) = deferred env (FileClose (scriptFile rs))
                                          (Return (Some (External e)), w2)
                        in (out, rs, w3))
                   | Ok \<Rightarrow>
                       (let originalScript = script rs;
                            originalType = scriptType rs;
                            rs1 = rs\<lparr>script := outBytes r2, scriptType := RawScript\<rparr>;
                            (out, w3) = runScript env rs1 w2;
                            rs2 = (case out of
                                     Panic \<Rightarrow> rs1
                                   | Return e \<Rightarrow> rs1\<lparr>script := originalScript,
                                                       scriptType := originalType\<rparr>);
                            (out', w4) = deferred env (FileClose (scriptFile rs)) (out, w3)
                        in (out', rs2, w4))))))"

text \<open>
  \<^verbatim>\<open>Run\<close>. With a stored error it prints the error on the process's standard output
  (\<^verbatim>\<open>fmt.Println\<close>) and returns it.
\<close>

definition Run :: "env \<Rightarrow> remoteScript \<Rightarrow> world \<Rightarrow> error option outcome \<times> remoteScript \<times> world" where
  "Run env rs w =
     (case err rs of
        Some e \<Rightarrow> (Return (Some e), rs, emit (Some OsStdout) (Error e @ [newline]) w)
      | None \<Rightarrow>
          (if scriptType rs = CommandLine then
             (let (out, w1) = runCommands env rs w in (out, rs, w1))
           else if scriptType rs = RawScript then
             (let (out, w1) = runScript env rs w in (out, rs, w1))
           else if scriptType rs = ScriptFile then runScriptFile env rs w
           else (Return (Some (ErrorString ''unsupported script type'')), rs, w)))"

text \<open>
  \<^verbatim>\<open>Output\<close>. The deferred function puts \<open>originalStdout\<close> back on every exit path,
  a panic of \<open>Run\<close> included.
\<close>

definition Output :: "env \<Rightarrow> remoteScript \<Rightarrow> world \<Rightarrow> (string option \<times> error option) outcome \<times> remoteScript \<times> world" where
  "Output env rs w =
     (case err rs of
        Some e \<Rightarrow> (Return (None, Some e), rs, w)
      | None \<Rightarrow>
          (let originalStdout = stdout rs;
               (out, w1) = newBuffer w;
               (r, rs1, w2) = Run env (rs\<lparr>stdout := Some out\<rparr>) w1
           in ((case r of Panic \<Rightarrow> Panic | Return e \<Rightarrow> Return (Bytes (heap w2 out), e)),
               rs1\<lparr>stdout := originalStdout\<rparr>, w2)))"

definition SmartOutput :: "env \<Rightarrow> remoteScript \<Rightarrow> world \<Rightarrow> (string option \<times> error option) outcome \<times> remoteScript \<times> world" where
  "SmartOutput env rs w =
     (case err rs of
        Some e \<Rightarrow> (Return (None, Some e), rs, w)
      | None \<Rightarrow>
          (let originalStdout = stdout rs;
               originalStderr = stderr rs;
               (sout, w1) = newBuffer w;
               (serr, w2) = newBuffer w1;
               (r, rs1, w3) = Run env (rs\<lparr>stdout := Some sout, stderr := Some serr\<rparr>) w2
           in ((case r of
                  Panic \<Rightarrow> Panic
                | Return (Some e) \<Rightarrow> Return (Bytes (heap w3 serr), Some e)
                | Return None \<Rightarrow> Return (Bytes (heap w3 sout), None)),
               rs1\<lparr>stdout := originalStdout, stderr := originalStderr\<rparr>, w3)))"

definition SetStdio :: "remoteScript \<Rightarrow> writer option \<Rightarrow> writer option \<Rightarrow> remoteScript" where
  "SetStdio rs so se = rs\<lparr>stdout := so, stderr := se\<rparr>"

definition cmdError :: error where
  "cmdError = ErrorString ''Cmd() can only be used with CommandLine script type''"

definition Cmd :: "remoteScript \<Rightarrow> string \<Rightarrow> remoteScript" where
  "Cmd rs cmd =
     (if scriptType rs = CommandLine then
        (if script rs = [] then rs\<lparr>script := cmd\<rparr>
         else rs\<lparr>script := script rs @ [newline] @ cmd\<rparr>)
      else rs\<lparr>err := Some cmdError\<rparr>)"

text \<open>The factory \<^verbatim>\<open>client.Command\<close> (client.go), from the client's \<^verbatim>\<open>sshClient\<close>.\<close>

definition Command :: "nat option \<Rightarrow> string \<Rightarrow> remoteScript" where
  "Command sshClient cmd =
     \<lparr>client = sshClient, scriptType = CommandLine, script = cmd, scriptFile = [],
      err = None, stdout = None, stderr = None\<rparr>"

section \<open>The shell driver\<close>

definition setupStreams :: "remoteShell \<Rightarrow> session \<Rightarrow> session" where
  "setupStreams rs s =
     s\<lparr>Stdin := Some (case remoteShell.stdin rs of None \<Rightarrow> OsStdin | Some r \<Rightarrow> r),
       Stdout := Some (case remoteShell.stdout rs of None \<Rightarrow> OsStdout | Some x \<Rightarrow> x),
       Stderr := Some (case remoteShell.stderr rs of None \<Rightarrow> OsStderr | Some x \<Rightarrow> x)\<rparr>"

definition requestPseudoTerminal :: "env \<Rightarrow> remoteShell \<Rightarrow> session \<Rightarrow> world \<Rightarrow> result \<times> world" where
  "requestPseudoTerminal env rs s w =
     (let tc = (case terminalConfig rs of None \<Rightarrow> DefaultTerminalConfig | Some c \<Rightarrow> c)
      in sessionCall env s (SessionRequestPty s (Term tc) (Height tc) (Width tc) (Modes tc)) w)"

text \<open>
  \<^verbatim>\<open>Start\<close>. The value of \<^verbatim>\<open>session.Run(command)\<close> is not assigned to anything.
\<close>

definition Start :: "env \<Rightarrow> remoteShell \<Rightarrow> string \<Rightarrow> world \<Rightarrow> error option outcome \<times> world" where
  "Start env rs command w =
     (if remoteShell.client rs = None then (Panic, w)
      else
        (let (r, s0, w1) = openSession env w
         in (case r of
               Abort \<Rightarrow> (Panic, w1)
             | Fail e \<Rightarrow> (Return (Some (External e)), w1)
             | Ok \<Rightarrow>
                 (let s = setupStreams rs s0
                  in deferred env (SessionClose s)
                       (let (r1, w2) = (if requestPty rs then requestPseudoTerminal env rs s w1
                                        else (Ok, w1))
                        in (case r1 of
                              Abort \<Rightarrow> (Panic, w2)
                            | Fail e \<Rightarrow> (Return (Some (External e)), w2)
                            | Ok \<Rightarrow>
                                (let (r2, w3) = (if command \<noteq> [] then
                                                   sessionCall env s (SessionRun s command) w2
                                                 else (Ok, w2))
                                 in if r2 = Abort then (Panic, w3)
                                    else
                                      (let (r3, w4) = sessionCall env s (SessionShell s) w3
                                       in (case r3 of
                                             Abort \<Rightarrow> (Panic, w4)
                                           | Fail e \<Rightarrow> (Return (Some (External e)), w4)
                                           | Ok \<Rightarrow>
                                               (let (r4, w5) = sessionCall env s (SessionWait s) w4
                                                in (ofResult r4, w5)))))))))))"

section \<open>Callers and environments used in the statements\<close>

text \<open>
  A caller's use of one specification: any of the five methods of
  \<^verbatim>\<open>CommandExecutor\<close>, in any order. The state after a call is kept whether the
  call returned or panicked (a caller may recover and go on, as the tests do).
\<close>

datatype operation =
    OpCmd string
  | OpSetStdio "writer option" "writer option"
  | OpRun
  | OpOutput
  | OpSmartOutput

fun applyOp :: "env \<Rightarrow> operation \<Rightarrow> remoteScript \<times> world \<Rightarrow> remoteScript \<times> world" where
  "applyOp env (OpCmd c) (rs, w) = (Cmd rs c, w)"
| "applyOp env (OpSetStdio so se) (rs, w) = (SetStdio rs so se, w)"
| "applyOp env OpRun (rs, w) = snd (Run env rs w)"
| "applyOp env OpOutput (rs, w) = snd (Output env rs w)"
| "applyOp env OpSmartOutput (rs, w) = snd (SmartOutput env rs w)"

fun applyOps :: "env \<Rightarrow> operation list \<Rightarrow> remoteScript \<times> world \<Rightarrow> remoteScript \<times> world" where
  "applyOps env [] st = st"
| "applyOps env (op # ops) st = applyOps env ops (applyOp env op st)"

definition world0 :: world where
  "world0 = \<lparr>heap = (\<lambda>x. []), nextAddr = 0, nextSession = 0, trace = []\<rparr>"

text \<open>A transport on which every call succeeds silently.\<close>

definition envOk :: env where
  "envOk h c = \<lparr>res = Ok, outBytes = [], errBytes = []\<rparr>"


definition rawSpec :: remoteScript where
  "rawSpec =
     \<lparr>client = Some 0, scriptType = RawScript, script = ''echo hello'', scriptFile = [],
      err = None, stdout = Some (WriterRef 7), stderr = None\<rparr>"

definition fileSpec :: remoteScript where
  "fileSpec =
     \<lparr>client = Some 0, scriptType = ScriptFile, script = ''original script'',
      scriptFile = ''test.sh'', err = None, stdout = None, stderr = None\<rparr>"

definition oddSpec :: remoteScript where
  "oddSpec =
     \<lparr>client = Some 0, scriptType = 7, script = ''echo hello'', scriptFile = [],
      err = None, stdout = None, stderr = None\<rparr>"

text \<open>A file system without the script file.\<close>

definition envNoFile :: env where
  "envNoFile h c =
     (case c of
        OsOpen p \<Rightarrow> \<lparr>res = Fail ''open: no such file or directory'', outBytes = [], errBytes = []\<rparr>
      | _ \<Rightarrow> \<lparr>res = Ok, outBytes = [], errBytes = []\<rparr>)"

text \<open>A file system whose script file holds one line, and a transport that accepts it.\<close>

definition envFile :: env where
  "envFile h c =
     (case c of
        IoCopy p \<Rightarrow> \<lparr>res = Ok, outBytes = ''echo hi'', errBytes = []\<rparr>
      | SessionWait s \<Rightarrow> \<lparr>res = Ok, outBytes = ''hi'', errBytes = []\<rparr>
      | _ \<Rightarrow> \<lparr>res = Ok, outBytes = [], errBytes = []\<rparr>)"

text \<open>
  The command sequence as the specification words it, to be compared with
  \<open>runCommands\<close>: split the body on newlines, trim each line and drop the blank
  ones; then, for each remaining line in order, open a fresh session, bind the two
  sinks to it, execute the line and close the session; the first line that does not
  succeed ends the sequence with its outcome.
\<close>

definition nonBlankLines :: "string \<Rightarrow> string list" where
  "nonBlankLines body = filter (\<lambda>l. l \<noteq> []) (map TrimSpace (SplitLines body))"



text \<open>
  A transport on which the command \<open>fail\<close> exits with an error after writing
  \<open>boom\<close> to its standard error, and every other command prints a line.
\<close>

definition envFailLine :: env where
  "envFailLine h c =
     (case c of
        SessionRun s cmd \<Rightarrow>
          (if cmd = ''fail'' then \<lparr>res = Fail ''Process exited with status 1'', outBytes = [], errBytes = ''boom''\<rparr>
           else \<lparr>res = Ok, outBytes = ''command output: '' @ cmd, errBytes = []\<rparr>)
      | _ \<Rightarrow> \<lparr>res = Ok, outBytes = [], errBytes = []\<rparr>)"


text \<open>
  The transport \<open>env\<close> with every error returned by \<^verbatim>\<open>session.Run\<close> replaced by
  success; its other answers, its output and its panics are those of \<open>env\<close>.
\<close>

definition ignoreRunError :: "env \<Rightarrow> env" where
  "ignoreRunError env h c =
     (case c of
        SessionRun s cmd \<Rightarrow> (if res (env h c) = Abort then env h c else (env h c)\<lparr>res := Ok\<rparr>)
      | _ \<Rightarrow> env h c)"

text \<open>
  Three shells: interactive with a nil terminal configuration, interactive with a
  caller's configuration and writer, and non-interactive.
\<close>

definition ptyShell :: remoteShell where
  "ptyShell =
     \<lparr>remoteShell.client = Some 0, shellType = InteractiveShell, requestPty = True, terminalConfig = None,
      remoteShell.stdin = None, remoteShell.stdout = None, remoteShell.stderr = None\<rparr>"

definition customShell :: remoteShell where
  "customShell =
     \<lparr>remoteShell.client = Some 0, shellType = InteractiveShell, requestPty = True,
      terminalConfig = Some \<lparr>Term = ''vt100'', Width = 132, Height = 24, Modes = Map.empty\<rparr>,
      remoteShell.stdin = None, remoteShell.stdout = Some (WriterRef 1), remoteShell.stderr = None\<rparr>"

definition plainShell :: remoteShell where
  "plainShell =
     \<lparr>remoteShell.client = Some 0, shellType = NonInteractiveShell, requestPty = False, terminalConfig = None,
      remoteShell.stdin = None, remoteShell.stdout = None, remoteShell.stderr = None\<rparr>"

text \<open>A transport that refuses the pseudo-terminal.\<close>

definition envNoPty :: env where
  "envNoPty h c =
     (case c of
        SessionRequestPty s term hh ww modes \<Rightarrow> \<lparr>res = Fail ''ssh: pty-req failed'', outBytes = [], errBytes = []\<rparr>
      | _ \<Rightarrow> \<lparr>res = Ok, outBytes = [], errBytes = []\<rparr>)"




section \<open>Frame properties of the execution core\<close>

lemmas exec_defs =
  Run_def runCommands_def runSingleCommand_def runScript_def runScriptFile_def
  Output_def SmartOutput_def openSession_def sessionCall_def perform_def emit_def
  deferred_def ofResult_def newBuffer_def Bytes_def

lemmas const_defs =
  CommandLine_def RawScript_def ScriptFile_def newline_def cmdError_def world0_def

lemma runScriptFile_returns:
  "runScriptFile env rs w = (Return r, rs', w') \<Longrightarrow> rs' = rs"
  by (auto simp: runScriptFile_def deferred_def Let_def
           split: prod.splits result.splits outcome.splits if_splits)

lemma Run_returns:
  "Run env rs w = (Return r, rs', w') \<Longrightarrow> rs' = rs"
  by (auto simp: Run_def Let_def dest: runScriptFile_returns
           split: option.splits prod.splits if_splits)

lemma runScriptFile_frame:
  "runScriptFile env rs w = (out, rs', w') \<Longrightarrow>
     client rs' = client rs \<and> scriptFile rs' = scriptFile rs \<and> err rs' = err rs \<and>
     stdout rs' = stdout rs \<and> stderr rs' = stderr rs"
  by (auto simp: runScriptFile_def deferred_def Let_def
           split: prod.splits result.splits outcome.splits if_splits)

lemma Run_frame:
  "Run env rs w = (out, rs', w') \<Longrightarrow>
     client rs' = client rs \<and> scriptFile rs' = scriptFile rs \<and> err rs' = err rs \<and>
     stdout rs' = stdout rs \<and> stderr rs' = stderr rs"
  by (auto simp: Run_def Let_def dest: runScriptFile_frame
           split: option.splits prod.splits if_splits)

lemma Run_CommandLine_same:
  "scriptType rs = CommandLine \<Longrightarrow> fst (snd (Run env rs w)) = rs"
  by (auto simp: Run_def Let_def split: option.splits prod.splits)

section \<open>Building a command sequence\<close>

text \<open>
  C6. On a specification in \<open>CommandLine\<close> mode with an empty script, \<open>Cmd "a"\<close>
  followed by \<open>Cmd "b"\<close> leaves the script \<open>"a\nb"\<close> and changes nothing else. In
  every other mode \<open>Cmd\<close> returns the same specification with only the stored error
  changed: the script is as before, the stored error is the fixed message naming
  \<open>CommandLine\<close>, and that error is what the next \<open>Run\<close>, \<open>Output\<close> or
  \<open>SmartOutput\<close> returns.
\<close>

theorem Cmd_appends_or_defers:
  "(scriptType rs = CommandLine \<and> script rs = [] \<longrightarrow>
      Cmd (Cmd rs ''a'') ''b'' = rs\<lparr>script := ''a'' @ [newline] @ ''b''\<rparr>) \<and>
   (scriptType rs \<noteq> CommandLine \<longrightarrow>
      Cmd rs c = rs\<lparr>err := Some cmdError\<rparr> \<and>
      script (Cmd rs c) = script rs \<and>
      Contains (Error cmdError) ''can only be used with CommandLine'' \<and>
      fst (Run env (Cmd rs c) w) = Return (Some cmdError) \<and>
      fst (Output env (Cmd rs c) w) = Return (None, Some cmdError) \<and>
      fst (SmartOutput env (Cmd rs c) w) = Return (None, Some cmdError))"
  by (simp add: Cmd_def Run_def Output_def SmartOutput_def cmdError_def)

text \<open>The theorem at the specification \<open>Command nil ""\<close> and at a raw script.\<close>

theorem Cmd_appends_or_defers_witness:
  "scriptType (Command None []) = CommandLine \<and> script (Command None []) = [] \<and>
   Cmd (Cmd (Command None []) ''a'') ''b'' = (Command None [])\<lparr>script := ''a'' @ [newline] @ ''b''\<rparr> \<and>
   scriptType rawSpec \<noteq> CommandLine \<and>
   script (Cmd rawSpec ''ls'') = script rawSpec \<and>
   fst (Run envOk (Cmd rawSpec ''ls'') world0) = Return (Some cmdError)"
proof -
  have h1: "scriptType (Command None []) = CommandLine \<and> script (Command None []) = []"
    by (simp add: Command_def)
  have h2: "scriptType rawSpec \<noteq> CommandLine"
    by (simp add: rawSpec_def const_defs)
  from Cmd_appends_or_defers [where rs = "Command None []"] h1
  have a: "Cmd (Cmd (Command None []) ''a'') ''b'' = (Command None [])\<lparr>script := ''a'' @ [newline] @ ''b''\<rparr>"
    by blast
  from Cmd_appends_or_defers [where rs = rawSpec and c = "''ls''" and env = envOk and w = world0] h2
  have b: "script (Cmd rawSpec ''ls'') = script rawSpec \<and>
           fst (Run envOk (Cmd rawSpec ''ls'') world0) = Return (Some cmdError)"
    by blast
  from h1 h2 a b show ?thesis by blast
qed

section \<open>Dispatch on the script type\<close>

text \<open>
  C8. When no error is stored and the script type is none of the three constants,
  \<open>Run\<close> returns (it does not panic) the error \<open>"unsupported script type"\<close>, whose
  message contains \<open>"unsupported"\<close>; the specification and the world, with its trace
  of transport calls, are as before.
\<close>

theorem Run_unsupported_mode:
  assumes "err rs = None"
    and "scriptType rs \<noteq> CommandLine" and "scriptType rs \<noteq> RawScript"
    and "scriptType rs \<noteq> ScriptFile"
  shows "Run env rs w = (Return (Some (ErrorString ''unsupported script type'')), rs, w) \<and>
         Contains (Error (ErrorString ''unsupported script type'')) ''unsupported''"
  using assms by (simp add: Run_def)

text \<open>The theorem at a specification with script type 7.\<close>

theorem Run_unsupported_mode_witness:
  "err oddSpec = None \<and> scriptType oddSpec \<noteq> CommandLine \<and> scriptType oddSpec \<noteq> RawScript \<and>
   scriptType oddSpec \<noteq> ScriptFile \<and>
   Run envOk oddSpec world0 = (Return (Some (ErrorString ''unsupported script type'')), oddSpec, world0)"
proof -
  have h: "err oddSpec = None" "scriptType oddSpec \<noteq> CommandLine"
    "scriptType oddSpec \<noteq> RawScript" "scriptType oddSpec \<noteq> ScriptFile"
    by (simp_all add: oddSpec_def const_defs)
  from Run_unsupported_mode [OF h, of envOk world0] h show ?thesis by simp
qed

section \<open>Running a script file\<close>

text \<open>
  C3. For a specification in \<open>ScriptFile\<close> mode: whenever \<open>Run\<close> returns, the whole
  specification, its script type and script included, is what it was before the call.
  When opening the file fails, \<open>Run\<close> returns that error as it is, nothing but the
  \<open>os.Open\<close> call has happened and the specification was never changed; when reading
  the opened file fails, \<open>Run\<close> returns that error and the specification is unchanged.
\<close>

theorem Run_restores_mode_and_body:
  assumes "scriptType rs = ScriptFile"
  shows "(fst (Run env rs w) \<noteq> Panic \<longrightarrow> fst (snd (Run env rs w)) = rs) \<and>
         (err rs = None \<and> res (env (trace w) (OsOpen (scriptFile rs))) = Fail e \<longrightarrow>
            Run env rs w = (Return (Some (External e)), rs, w\<lparr>trace := trace w @ [OsOpen (scriptFile rs)]\<rparr>)) \<and>
         (err rs = None \<and> res (env (trace w) (OsOpen (scriptFile rs))) = Ok \<and>
          res (env (trace w @ [OsOpen (scriptFile rs)]) (IoCopy (scriptFile rs))) = Fail e \<and>
          fst (Run env rs w) \<noteq> Panic \<longrightarrow>
            fst (Run env rs w) = Return (Some (External e)) \<and> fst (snd (Run env rs w)) = rs)"
proof (intro conjI impI)
  assume "fst (Run env rs w) \<noteq> Panic"
  then obtain r rs' w' where "Run env rs w = (Return r, rs', w')"
    by (cases "Run env rs w"; cases "fst (Run env rs w)") auto
  then show "fst (snd (Run env rs w)) = rs" using Run_returns by fastforce
next
  assume "err rs = None \<and> res (env (trace w) (OsOpen (scriptFile rs))) = Fail e"
  with assms show "Run env rs w = (Return (Some (External e)), rs, w\<lparr>trace := trace w @ [OsOpen (scriptFile rs)]\<rparr>)"
    by (simp add: Run_def runScriptFile_def perform_def const_defs)
next
  assume a: "err rs = None \<and> res (env (trace w) (OsOpen (scriptFile rs))) = Ok \<and>
          res (env (trace w @ [OsOpen (scriptFile rs)]) (IoCopy (scriptFile rs))) = Fail e \<and>
          fst (Run env rs w) \<noteq> Panic"
  with assms show "fst (Run env rs w) = Return (Some (External e))"
    by (auto simp: Run_def runScriptFile_def perform_def deferred_def const_defs split: if_splits)
next
  assume a: "err rs = None \<and> res (env (trace w) (OsOpen (scriptFile rs))) = Ok \<and>
          res (env (trace w @ [OsOpen (scriptFile rs)]) (IoCopy (scriptFile rs))) = Fail e \<and>
          fst (Run env rs w) \<noteq> Panic"
  then obtain r rs' w' where "Run env rs w = (Return r, rs', w')"
    by (cases "Run env rs w"; cases "fst (Run env rs w)") auto
  then show "fst (snd (Run env rs w)) = rs" using Run_returns by fastforce
qed

text \<open>The theorem where the file is missing and where the file is read and run.\<close>

theorem Run_restores_mode_and_body_witness:
  "scriptType fileSpec = ScriptFile \<and>
   err fileSpec = None \<and>
   res (envNoFile (trace world0) (OsOpen (scriptFile fileSpec))) = Fail ''open: no such file or directory'' \<and>
   Run envNoFile fileSpec world0 =
     (Return (Some (External ''open: no such file or directory'')), fileSpec,
      world0\<lparr>trace := trace world0 @ [OsOpen (scriptFile fileSpec)]\<rparr>) \<and>
   fst (Run envFile fileSpec world0) \<noteq> Panic \<and>
   fst (snd (Run envFile fileSpec world0)) = fileSpec"
proof -
  have h: "scriptType fileSpec = ScriptFile"
    by (simp add: fileSpec_def)
  have h1: "err fileSpec = None \<and>
    res (envNoFile (trace world0) (OsOpen (scriptFile fileSpec))) = Fail ''open: no such file or directory''"
    by (simp add: fileSpec_def envNoFile_def)
  have h2: "fst (Run envFile fileSpec world0) \<noteq> Panic"
    by (simp add: fileSpec_def envFile_def exec_defs const_defs Let_def)
  from Run_restores_mode_and_body [OF h, of envNoFile world0 "''open: no such file or directory''"] h1
  have a: "Run envNoFile fileSpec world0 =
     (Return (Some (External ''open: no such file or directory'')), fileSpec,
      world0\<lparr>trace := trace world0 @ [OsOpen (scriptFile fileSpec)]\<rparr>)"
    by blast
  from Run_restores_mode_and_body [OF h, of envFile world0] h2
  have b: "fst (snd (Run envFile fileSpec world0)) = fileSpec"
    by blast
  from h h1 h2 a b show ?thesis by blast
qed

section \<open>Captured output leaves the sinks as they were\<close>

lemma Output_frame:
  "stdout (fst (snd (Output env rs w))) = stdout rs \<and>
   stderr (fst (snd (Output env rs w))) = stderr rs \<and>
   err (fst (snd (Output env rs w))) = err rs \<and>
   client (fst (snd (Output env rs w))) = client rs \<and>
   scriptFile (fst (snd (Output env rs w))) = scriptFile rs"
  by (auto simp: Output_def Let_def split: option.splits prod.splits dest: Run_frame)

lemma SmartOutput_frame:
  "stdout (fst (snd (SmartOutput env rs w))) = stdout rs \<and>
   stderr (fst (snd (SmartOutput env rs w))) = stderr rs \<and>
   err (fst (snd (SmartOutput env rs w))) = err rs \<and>
   client (fst (snd (SmartOutput env rs w))) = client rs \<and>
   scriptFile (fst (snd (SmartOutput env rs w))) = scriptFile rs"
  by (auto simp: SmartOutput_def Let_def split: option.splits prod.splits dest: Run_frame)

lemma capture_ops_sinks:
  "\<forall>op \<in> set ops. op = OpOutput \<or> op = OpSmartOutput \<Longrightarrow>
   stdout (fst (applyOps env ops (rs, w))) = stdout rs \<and>
   stderr (fst (applyOps env ops (rs, w))) = stderr rs"
proof (induction ops arbitrary: rs w)
  case Nil
  then show ?case by simp
next
  case (Cons op ops)
  obtain rs1 w1 where st: "applyOp env op (rs, w) = (rs1, w1)"
    by (cases "applyOp env op (rs, w)")
  from Cons.prems have "op = OpOutput \<or> op = OpSmartOutput" by simp
  with st have "stdout rs1 = stdout rs \<and> stderr rs1 = stderr rs"
    using Output_frame [of env rs w] SmartOutput_frame [of env rs w]
    by (auto simp: snd_def split: prod.splits)
  moreover from Cons.prems have "\<forall>op \<in> set ops. op = OpOutput \<or> op = OpSmartOutput" by simp
  ultimately show ?case using Cons.IH [of rs1 w1] st by simp
qed

text \<open>
  C2. Whatever the sinks were (nil included), the state left by \<open>Output\<close> has the
  \<open>stdout\<close> it had before the call, and the state left by \<open>SmartOutput\<close> has the
  \<open>stdout\<close> and \<open>stderr\<close> it had before the call; this holds for every outcome of the
  inner \<open>Run\<close>, a returned error and a panic included, and for \<open>stderr\<close> after
  \<open>Output\<close> as well. Hence any sequence of \<open>Output\<close> and \<open>SmartOutput\<close> calls on
  one specification leaves both sinks as they were.
\<close>

theorem Output_restores_sinks:
  "stdout (fst (snd (Output env rs w))) = stdout rs \<and>
   stderr (fst (snd (Output env rs w))) = stderr rs \<and>
   stdout (fst (snd (SmartOutput env rs w))) = stdout rs \<and>
   stderr (fst (snd (SmartOutput env rs w))) = stderr rs \<and>
   ((\<forall>op \<in> set ops. op = OpOutput \<or> op = OpSmartOutput) \<longrightarrow>
      stdout (fst (applyOps env ops (rs, w))) = stdout rs \<and>
      stderr (fst (applyOps env ops (rs, w))) = stderr rs)"
  using Output_frame [of env rs w] SmartOutput_frame [of env rs w] capture_ops_sinks [of ops env rs w]
  by blast

text \<open>The theorem at three capturing calls on a raw script with a caller's writer.\<close>

theorem Output_restores_sinks_witness:
  "stdout (fst (applyOps envFile [OpOutput, OpSmartOutput, OpOutput] (rawSpec, world0))) = stdout rawSpec \<and>
   stderr (fst (applyOps envFile [OpOutput, OpSmartOutput, OpOutput] (rawSpec, world0))) = stderr rawSpec \<and>
   stdout (fst (snd (Output envFile rawSpec world0))) = Some (WriterRef 7)"
proof -
  have h: "\<forall>op \<in> set [OpOutput, OpSmartOutput, OpOutput]. op = OpOutput \<or> op = OpSmartOutput"
    by simp
  have s: "stdout rawSpec = Some (WriterRef 7)"
    by (simp add: rawSpec_def)
  from Output_restores_sinks [of envFile rawSpec world0 "[OpOutput, OpSmartOutput, OpOutput]"] h s
  show ?thesis by simp
qed

section \<open>The stored error\<close>







section \<open>Specifications made by the Command factory\<close>

lemma runSingleCommand_error:
  "runSingleCommand env rs cmd w = (Return (Some e), w') \<Longrightarrow> \<exists>m. e = External m"
  by (auto simp: runSingleCommand_def deferred_def ofResult_def Let_def
           split: if_splits prod.splits result.splits)

lemma runLines_error:
  "runLines env rs ls w = (Return (Some e), w') \<Longrightarrow> \<exists>m. e = External m"
proof (induction ls arbitrary: w)
  case Nil
  then show ?case by simp
next
  case (Cons l ls)
  show ?case
  proof (cases "TrimSpace l = []")
    case True
    with Cons show ?thesis by simp
  next
    case False
    obtain out w1 where r: "runSingleCommand env rs (TrimSpace l) w = (out, w1)"
      by (cases "runSingleCommand env rs (TrimSpace l) w")
    show ?thesis
    proof (cases out)
      case Panic
      with False r Cons.prems show ?thesis by simp
    next
      case (Return x)
      show ?thesis
      proof (cases x)
        case None
        with Return False r Cons.prems have "runLines env rs ls w1 = (Return (Some e), w')" by simp
        then show ?thesis by (rule Cons.IH)
      next
        case (Some e1)
        with Return False r Cons.prems have "e1 = e" by simp
        with Some Return r show ?thesis using runSingleCommand_error by blast
      qed
    qed
  qed
qed

lemma Run_CommandLine_error:
  assumes "scriptType rs = CommandLine" and "err rs = None"
  shows "fst (Run env rs w) \<noteq> Return (Some cmdError)"
proof
  assume a: "fst (Run env rs w) = Return (Some cmdError)"
  obtain out w1 where r: "runLines env rs (SplitLines (script rs)) w = (out, w1)"
    by (cases "runLines env rs (SplitLines (script rs)) w")
  with assms a have "out = Return (Some cmdError)"
    by (simp add: Run_def runCommands_def)
  with r runLines_error show False by (fastforce simp: cmdError_def)
qed

lemma Run_CommandLine_eq:
  "scriptType rs = CommandLine \<Longrightarrow> Run env rs w = (out, rs', w') \<Longrightarrow> rs' = rs"
  using Run_CommandLine_same [of rs env w] by simp

lemma Run_CommandLine_error_eq:
  "scriptType rs = CommandLine \<Longrightarrow> err rs = None \<Longrightarrow> Run env rs w = (Return (Some e), rs', w') \<Longrightarrow>
   e \<noteq> cmdError"
  using Run_CommandLine_error [of rs env w] by auto

lemma CommandLine_step:
  assumes "scriptType rs = CommandLine" and "err rs = None"
  shows "scriptType (fst (applyOp env op (rs, w))) = CommandLine \<and>
         err (fst (applyOp env op (rs, w))) = None"
proof (cases op)
  case (OpCmd c)
  with assms show ?thesis by (simp add: Cmd_def)
next
  case (OpSetStdio so se)
  with assms show ?thesis by (simp add: SetStdio_def)
next
  case OpRun
  with assms Run_CommandLine_same [of rs env w] show ?thesis by simp
next
  case OpOutput
  with assms show ?thesis
    by (auto simp: Output_def Let_def split: prod.splits dest!: Run_CommandLine_eq [rotated])
next
  case OpSmartOutput
  with assms show ?thesis
    by (auto simp: SmartOutput_def Let_def split: prod.splits dest!: Run_CommandLine_eq [rotated])
qed

lemma CommandLine_ops:
  "scriptType rs = CommandLine \<Longrightarrow> err rs = None \<Longrightarrow>
   scriptType (fst (applyOps env ops (rs, w))) = CommandLine \<and>
   err (fst (applyOps env ops (rs, w))) = None"
proof (induction ops arbitrary: rs w)
  case Nil
  then show ?case by simp
next
  case (Cons op ops)
  obtain rs1 w1 where st: "applyOp env op (rs, w) = (rs1, w1)"
    by (cases "applyOp env op (rs, w)")
  with CommandLine_step [OF Cons.prems, of env op w]
  have "scriptType rs1 = CommandLine" and "err rs1 = None" by simp_all
  with Cons.IH [of rs1 w1] st show ?case by simp
qed

text \<open>
  C10. A specification made by \<open>Command\<close> has no stored error and is in
  \<open>CommandLine\<close> mode after any sequence of \<open>Cmd\<close>, \<open>SetStdio\<close>, \<open>Run\<close>,
  \<open>Output\<close> and \<open>SmartOutput\<close> calls, whatever the transport does; and \<open>Run\<close>,
  \<open>Output\<close> and \<open>SmartOutput\<close> on it never return the error of \<open>Cmd\<close>.
\<close>

theorem Command_never_defers_error:
  "err (fst (applyOps env ops (Command c cmd, w))) = None \<and>
   scriptType (fst (applyOps env ops (Command c cmd, w))) = CommandLine \<and>
   fst (Run env' (fst (applyOps env ops (Command c cmd, w))) w') \<noteq> Return (Some cmdError) \<and>
   fst (Output env' (fst (applyOps env ops (Command c cmd, w))) w') \<noteq> Return (bs, Some cmdError) \<and>
   fst (SmartOutput env' (fst (applyOps env ops (Command c cmd, w))) w') \<noteq> Return (bs, Some cmdError)"
proof -
  define rs where "rs = fst (applyOps env ops (Command c cmd, w))"
  have inv: "scriptType rs = CommandLine \<and> err rs = None"
    unfolding rs_def by (rule CommandLine_ops) (simp_all add: Command_def)
  then have r: "fst (Run env' rs w') \<noteq> Return (Some cmdError)"
    by (simp add: Run_CommandLine_error)
  have o: "fst (Output env' rs w') \<noteq> Return (bs, Some cmdError)"
    using inv
    by (auto simp: Output_def Let_def split: prod.splits outcome.splits
             dest!: Run_CommandLine_error_eq [rotated 2])
  have s: "fst (SmartOutput env' rs w') \<noteq> Return (bs, Some cmdError)"
    using inv
    by (auto simp: SmartOutput_def Let_def split: prod.splits outcome.splits option.splits
             dest!: Run_CommandLine_error_eq [rotated 2])
  from inv r o s show ?thesis unfolding rs_def by simp
qed

text \<open>The theorem at \<open>Command c "ls"\<close> after an append, a capture and a rebinding.\<close>

theorem Command_never_defers_error_witness:
  "err (fst (applyOps envFile [OpCmd ''pwd'', OpOutput, OpSetStdio None None, OpRun]
             (Command (Some 0) ''ls'', world0))) = None \<and>
   fst (Run envFile (fst (applyOps envFile [OpCmd ''pwd'', OpOutput, OpSetStdio None None, OpRun]
             (Command (Some 0) ''ls'', world0))) world0) \<noteq> Return (Some cmdError)"
  using Command_never_defers_error [of envFile "[OpCmd ''pwd'', OpOutput, OpSetStdio None None, OpRun]"
          "Some 0" "''ls''" world0 envFile world0 None]
  by blast

section \<open>The command sequence\<close>




lemma dropWhile_all: "\<forall>c \<in> set l. P c \<Longrightarrow> dropWhile P l = []"
  by (induction l) auto

lemma TrimSpace_blank: "\<forall>c \<in> set l. isSpace c \<Longrightarrow> TrimSpace l = []"
  by (simp add: TrimSpace_def dropWhile_all)

lemma SplitLines_concat: "set (concat (SplitLines s)) \<subseteq> set s"
proof (induction s)
  case Nil
  then show ?case by simp
next
  case (Cons c cs)
  then show ?case
    by (cases "SplitLines cs") (auto split: if_splits)
qed

lemma SplitLines_chars: "l \<in> set (SplitLines s) \<Longrightarrow> set l \<subseteq> set s"
  using SplitLines_concat [of s] by auto

lemma blank_body: "\<forall>c \<in> set body. isSpace c \<Longrightarrow> nonBlankLines body = []"
  unfolding nonBlankLines_def
  using SplitLines_chars TrimSpace_blank
  by (fastforce simp: filter_empty_conv)




section \<open>Starting a shell\<close>

lemma ign_perform:
  "(\<And>s cmd. c \<noteq> SessionRun s cmd) \<Longrightarrow> perform (ignoreRunError env) c w = perform env c w"
  by (cases c) (auto simp: perform_def ignoreRunError_def)

lemma ign_open: "openSession (ignoreRunError env) w = openSession env w"
  by (simp add: openSession_def ign_perform)

lemma ign_call:
  "(\<And>s cmd. c \<noteq> SessionRun s cmd) \<Longrightarrow> sessionCall (ignoreRunError env) s c w = sessionCall env s c w"
  by (simp add: sessionCall_def ign_perform)

lemma ign_pty:
  "requestPseudoTerminal (ignoreRunError env) rs s w = requestPseudoTerminal env rs s w"
  by (simp add: requestPseudoTerminal_def ign_call)

lemma ign_close:
  "deferred (ignoreRunError env) (SessionClose s) ow = deferred env (SessionClose s) ow"
  by (simp add: deferred_def ign_perform)

lemma ign_run:
  "sessionCall (ignoreRunError env) s (SessionRun s' cmd) w =
     (if fst (sessionCall env s (SessionRun s' cmd) w) = Abort then Abort else Ok,
      snd (sessionCall env s (SessionRun s' cmd) w))"
  by (simp add: sessionCall_def perform_def ignoreRunError_def)

lemma Start_after_command:
  "(let (r2, w3) = sessionCall (ignoreRunError env) s (SessionRun s command) w2
    in if r2 = Abort then (Panic, w3) else F w3) =
   (let (r2, w3) = sessionCall env s (SessionRun s command) w2
    in if r2 = Abort then (Panic, w3) else F w3)"
  by (simp add: ign_run split: prod.splits)

lemma Start_ignoreRunError:
  "Start (ignoreRunError env) rs command w = Start env rs command w"
proof (cases "command = []")
  case True
  then show ?thesis
    by (simp add: Start_def ign_open ign_pty ign_call ign_close
             cong del: if_weak_cong result.case_cong_weak prod.case_cong_weak let_weak_cong)
next
  case False
  then show ?thesis
    by (simp add: Start_def ign_open ign_pty ign_call ign_close Start_after_command
             cong del: if_weak_cong result.case_cong_weak prod.case_cong_weak let_weak_cong)
qed

lemma openSession_ok:
  "res (env (trace w) NewSession) = Ok \<Longrightarrow>
   openSession env w =
     (Ok, \<lparr>sid = nextSession w, Stdin = None, Stdout = None, Stderr = None\<rparr>,
      w\<lparr>trace := trace w @ [NewSession], nextSession := Suc (nextSession w)\<rparr>)"
  by (simp add: openSession_def perform_def)

lemma sessionCall_trace: "sessionCall env s c w = (r, w') \<Longrightarrow> trace w' = trace w @ [c]"
  by (auto simp: sessionCall_def perform_def emit_def split: option.splits)

lemma sessionCall_res: "sessionCall env s c w = (r, w') \<Longrightarrow> r = res (env (trace w) c)"
  by (auto simp: sessionCall_def perform_def)

lemma trace_deferred: "trace (snd (deferred env c ow)) = trace (snd ow) @ [c]"
  by (simp add: deferred_def perform_def)

lemma deferred_eq:
  "deferred env c (out, w1) =
     (if res (env (trace w1) c) = Abort then Panic else out, w1\<lparr>trace := trace w1 @ [c]\<rparr>)"
  by (simp add: deferred_def perform_def)

lemma trace_emit: "trace (emit x bs w) = trace w"
  by (simp add: emit_def split: option.splits)

lemma Start_all_ok:
  assumes "\<And>h c. res (env h c) = Ok" and "remoteShell.client rs \<noteq> None"
    and "s = setupStreams rs \<lparr>sid = nextSession w, Stdin = None, Stdout = None, Stderr = None\<rparr>"
    and "tc = (case terminalConfig rs of None \<Rightarrow> DefaultTerminalConfig | Some c \<Rightarrow> c)"
  shows "fst (Start env rs command w) = Return None \<and>
         trace (snd (Start env rs command w)) =
           trace w @ [NewSession]
           @ (if requestPty rs then [SessionRequestPty s (Term tc) (Height tc) (Width tc) (Modes tc)] else [])
           @ (if command \<noteq> [] then [SessionRun s command] else [])
           @ [SessionShell s, SessionWait s, SessionClose s]"
proof -
  have call: "sessionCall env s c w' =
      (Ok, emit (Stderr s) (errBytes (env (trace w') c))
             (emit (Stdout s) (outBytes (env (trace w') c)) (w'\<lparr>trace := trace w' @ [c]\<rparr>)))" for s c w'
    using assms(1) by (simp add: sessionCall_def perform_def)
  obtain cl where cl: "remoteShell.client rs = Some cl"
    using assms(2) by auto
  show ?thesis
    using assms(1) cl
    by (simp add: Start_def openSession_ok deferred_def perform_def Let_def
          requestPseudoTerminal_def call ofResult_def trace_emit
          assms(3) [symmetric] assms(4) [symmetric])
qed

lemma Start_with_pty:
  assumes "requestPty rs" and "remoteShell.client rs \<noteq> None" and "res (env (trace w) NewSession) = Ok"
    and "s = setupStreams rs \<lparr>sid = nextSession w, Stdin = None, Stdout = None, Stderr = None\<rparr>"
    and "tc = (case terminalConfig rs of None \<Rightarrow> DefaultTerminalConfig | Some c \<Rightarrow> c)"
    and "pty = SessionRequestPty s (Term tc) (Height tc) (Width tc) (Modes tc)"
  shows "(\<exists>rest. trace (snd (Start env rs command w)) = trace w @ [NewSession, pty] @ rest) \<and>
         (res (env (trace w @ [NewSession]) pty) = Fail e \<longrightarrow>
            trace (snd (Start env rs command w)) = trace w @ [NewSession, pty, SessionClose s] \<and>
            fst (Start env rs command w) =
              (if res (env (trace w @ [NewSession, pty]) (SessionClose s)) = Abort then Panic
               else Return (Some (External e))))"
proof -
  define w1 where "w1 = w\<lparr>trace := trace w @ [NewSession], nextSession := Suc (nextSession w)\<rparr>"
  obtain r1 w2 where pt: "requestPseudoTerminal env rs s w1 = (r1, w2)"
    by (cases "requestPseudoTerminal env rs s w1")
  then have sc: "sessionCall env s pty w1 = (r1, w2)"
    using assms(5,6) by (simp add: requestPseudoTerminal_def Let_def)
  have t2: "trace w2 = trace w @ [NewSession, pty]"
    using sessionCall_trace [OF sc] by (simp add: w1_def)
  have r1: "r1 = res (env (trace w @ [NewSession]) pty)"
    using sessionCall_res [OF sc] by (simp add: w1_def)
  define body where "body =
    (case r1 of
       Abort \<Rightarrow> (Panic, w2)
     | Fail e \<Rightarrow> (Return (Some (External e)), w2)
     | Ok \<Rightarrow>
         (let (r2, w3) = (if command \<noteq> [] then sessionCall env s (SessionRun s command) w2
                          else (Ok, w2))
          in if r2 = Abort then (Panic, w3)
             else
               (let (r3, w4) = sessionCall env s (SessionShell s) w3
                in (case r3 of
                      Abort \<Rightarrow> (Panic, w4)
                    | Fail e \<Rightarrow> (Return (Some (External e)), w4)
                    | Ok \<Rightarrow>
                        (let (r4, w5) = sessionCall env s (SessionWait s) w4
                         in (ofResult r4, w5))))))"
  obtain cl where cl: "remoteShell.client rs = Some cl"
    using assms(2) by auto
  have st: "Start env rs command w = deferred env (SessionClose s) body"
    using assms(1,3) pt cl
    by (simp add: Start_def openSession_ok assms(4) [symmetric] w1_def [symmetric] body_def)
  have ext: "\<exists>rest. trace (snd body) = trace w2 @ rest"
    unfolding body_def
    by (auto simp: Let_def split: result.splits prod.splits if_splits dest!: sessionCall_trace)
  then obtain rest where rest: "trace (snd body) = trace w2 @ rest" by blast
  have "trace (snd (Start env rs command w)) = trace w @ [NewSession, pty] @ (rest @ [SessionClose s])"
    using st rest t2 by (simp add: trace_deferred)
  then have A: "\<exists>rest. trace (snd (Start env rs command w)) = trace w @ [NewSession, pty] @ rest"
    by blast
  have B: "trace (snd (Start env rs command w)) = trace w @ [NewSession, pty, SessionClose s] \<and>
           fst (Start env rs command w) =
              (if res (env (trace w @ [NewSession, pty]) (SessionClose s)) = Abort then Panic
               else Return (Some (External e)))"
    if "res (env (trace w @ [NewSession]) pty) = Fail e"
  proof -
    from that r1 have "body = (Return (Some (External e)), w2)"
      by (simp add: body_def)
    with st t2 show ?thesis by (simp add: deferred_eq)
  qed
  from A B show ?thesis by blast
qed

text \<open>
  C7. For a shell that requests a pseudo-terminal (with a client, and a session that
  opens): the first two calls of \<open>Start\<close> are \<open>NewSession\<close> and then
  \<open>RequestPty\<close> on that session, so before the initial command, the shell entry
  point and the wait; its arguments are the caller's terminal configuration when
  there is one and otherwise \<open>"xterm"\<close>, height 40, width 80 and no modes (in the
  order term, height, width, modes of \<open>RequestPty\<close>); and when the negotiation
  fails the only further call is the close of the session, and \<open>Start\<close> returns
  the negotiation's error (unless that close itself panics).
\<close>

theorem Start_negotiates_pty:
  assumes "requestPty rs" and "remoteShell.client rs \<noteq> None" and "res (env (trace w) NewSession) = Ok"
  shows "let s = setupStreams rs \<lparr>sid = nextSession w, Stdin = None, Stdout = None, Stderr = None\<rparr>;
             tc = (case terminalConfig rs of None \<Rightarrow> DefaultTerminalConfig | Some c \<Rightarrow> c);
             pty = SessionRequestPty s (Term tc) (Height tc) (Width tc) (Modes tc)
         in take (length (trace w) + 2) (trace (snd (Start env rs command w))) = trace w @ [NewSession, pty] \<and>
            (terminalConfig rs = None \<longrightarrow> pty = SessionRequestPty s ''xterm'' 40 80 Map.empty) \<and>
            (\<forall>c. terminalConfig rs = Some c \<longrightarrow>
                 pty = SessionRequestPty s (Term c) (Height c) (Width c) (Modes c)) \<and>
            (res (env (trace w @ [NewSession]) pty) = Fail e \<longrightarrow>
               trace (snd (Start env rs command w)) = trace w @ [NewSession, pty, SessionClose s] \<and>
               fst (Start env rs command w) =
                 (if res (env (trace w @ [NewSession, pty]) (SessionClose s)) = Abort then Panic
                  else Return (Some (External e))))"
proof -
  define s where "s = setupStreams rs \<lparr>sid = nextSession w, Stdin = None, Stdout = None, Stderr = None\<rparr>"
  define tc where "tc = (case terminalConfig rs of None \<Rightarrow> DefaultTerminalConfig | Some c \<Rightarrow> c)"
  define pty where "pty = SessionRequestPty s (Term tc) (Height tc) (Width tc) (Modes tc)"
  note main = Start_with_pty [where env = env and rs = rs and w = w and command = command and e = e,
      OF assms s_def tc_def pty_def]
  from main obtain rest where "trace (snd (Start env rs command w)) = trace w @ [NewSession, pty] @ rest"
    by blast
  then have A: "take (length (trace w) + 2) (trace (snd (Start env rs command w))) = trace w @ [NewSession, pty]"
    by simp
  have B: "terminalConfig rs = None \<longrightarrow> pty = SessionRequestPty s ''xterm'' 40 80 Map.empty"
    by (simp add: pty_def tc_def DefaultTerminalConfig_def)
  have C: "\<forall>c. terminalConfig rs = Some c \<longrightarrow>
                 pty = SessionRequestPty s (Term c) (Height c) (Width c) (Modes c)"
    by (simp add: pty_def tc_def)
  from A B C main show ?thesis
    unfolding Let_def s_def [symmetric] tc_def [symmetric] pty_def [symmetric] by blast
qed

text \<open>The theorem at a refused pseudo-terminal with the default configuration, and at a caller's configuration.\<close>

theorem Start_negotiates_pty_witness:
  "fst (Start envNoPty ptyShell ''ls'' world0) = Return (Some (External ''ssh: pty-req failed'')) \<and>
   trace (snd (Start envNoPty ptyShell ''ls'' world0)) =
     [NewSession,
      SessionRequestPty \<lparr>sid = 0, Stdin = Some OsStdin, Stdout = Some OsStdout, Stderr = Some OsStderr\<rparr>
        ''xterm'' 40 80 Map.empty,
      SessionClose \<lparr>sid = 0, Stdin = Some OsStdin, Stdout = Some OsStdout, Stderr = Some OsStderr\<rparr>] \<and>
   take 2 (trace (snd (Start envOk customShell ''ls'' world0))) =
     [NewSession,
      SessionRequestPty \<lparr>sid = 0, Stdin = Some OsStdin, Stdout = Some (WriterRef 1), Stderr = Some OsStderr\<rparr>
        ''vt100'' 24 132 Map.empty]"
proof -
  have h: "requestPty ptyShell" "remoteShell.client ptyShell \<noteq> None"
    "res (envNoPty (trace world0) NewSession) = Ok"
    by (simp_all add: ptyShell_def envNoPty_def)
  have k: "requestPty customShell" "remoteShell.client customShell \<noteq> None"
    "res (envOk (trace world0) NewSession) = Ok"
    by (simp_all add: customShell_def envOk_def)
  from Start_negotiates_pty [where env = envNoPty and rs = ptyShell and w = world0 and command = "''ls''"
         and e = "''ssh: pty-req failed''", OF h]
  have a: "fst (Start envNoPty ptyShell ''ls'' world0) = Return (Some (External ''ssh: pty-req failed'')) \<and>
   trace (snd (Start envNoPty ptyShell ''ls'' world0)) =
     [NewSession,
      SessionRequestPty \<lparr>sid = 0, Stdin = Some OsStdin, Stdout = Some OsStdout, Stderr = Some OsStderr\<rparr>
        ''xterm'' 40 80 Map.empty,
      SessionClose \<lparr>sid = 0, Stdin = Some OsStdin, Stdout = Some OsStdout, Stderr = Some OsStderr\<rparr>]"
    by (simp add: Let_def ptyShell_def setupStreams_def DefaultTerminalConfig_def envNoPty_def world0_def)
  from Start_negotiates_pty [where env = envOk and rs = customShell and w = world0 and command = "''ls''"
         and e = "[]", OF k]
  have b: "take 2 (trace (snd (Start envOk customShell ''ls'' world0))) =
     [NewSession,
      SessionRequestPty \<lparr>sid = 0, Stdin = Some OsStdin, Stdout = Some (WriterRef 1), Stderr = Some OsStderr\<rparr>
        ''vt100'' 24 132 Map.empty]"
    by (simp add: Let_def customShell_def setupStreams_def envOk_def world0_def numeral_2_eq_2)
  from a b show ?thesis by blast
qed

text \<open>
  C9. \<open>Start\<close> does the same, and returns the same, on a transport and on that
  transport with every error of the initial command replaced by success: the error
  of the initial command is discarded. In particular, with a non-empty command whose
  execution fails on a transport where everything else succeeds, \<open>Start\<close> (here
  for a shell without pseudo-terminal) runs the command, the shell and the wait and
  returns nil.
\<close>

theorem Start_discards_command_error:
  "Start env rs command w = Start (ignoreRunError env) rs command w \<and>
   (command \<noteq> [] \<and> remoteShell.client rs \<noteq> None \<and> \<not> requestPty rs \<and>
    (\<forall>h s. res (env h (SessionRun s command)) = Fail e) \<and>
    (\<forall>h c. (\<forall>s. c \<noteq> SessionRun s command) \<longrightarrow> res (env h c) = Ok) \<longrightarrow>
      fst (Start env rs command w) = Return None \<and>
      trace (snd (Start env rs command w)) =
        (let s = setupStreams rs \<lparr>sid = nextSession w, Stdin = None, Stdout = None, Stderr = None\<rparr>
         in trace w @ [NewSession, SessionRun s command, SessionShell s, SessionWait s, SessionClose s]))"
proof (intro conjI impI)
  show eq: "Start env rs command w = Start (ignoreRunError env) rs command w"
    by (simp add: Start_ignoreRunError)
  assume a: "command \<noteq> [] \<and> remoteShell.client rs \<noteq> None \<and> \<not> requestPty rs \<and>
    (\<forall>h s. res (env h (SessionRun s command)) = Fail e) \<and>
    (\<forall>h c. (\<forall>s. c \<noteq> SessionRun s command) \<longrightarrow> res (env h c) = Ok)"
  have ok: "res (ignoreRunError env h c) = Ok" for h c
  proof (cases "\<exists>s. c = SessionRun s command")
    case True
    with a show ?thesis by (auto simp: ignoreRunError_def)
  next
    case False
    with a have "res (env h c) = Ok" by blast
    then show ?thesis by (cases c) (simp_all add: ignoreRunError_def)
  qed
  from a have cl: "remoteShell.client rs \<noteq> None" by blast
  note r = Start_all_ok [where env = "ignoreRunError env" and rs = rs and w = w and command = command,
      OF ok cl refl refl]
  from r eq show "fst (Start env rs command w) = Return None" by simp
  from r eq a show "trace (snd (Start env rs command w)) =
        (let s = setupStreams rs \<lparr>sid = nextSession w, Stdin = None, Stdout = None, Stderr = None\<rparr>
         in trace w @ [NewSession, SessionRun s command, SessionShell s, SessionWait s, SessionClose s])"
    by (simp add: Let_def)
qed

text \<open>The theorem at the command \<open>fail\<close>, which exits with an error.\<close>

theorem Start_discards_command_error_witness:
  "res (envFailLine [NewSession]
         (SessionRun \<lparr>sid = 0, Stdin = Some OsStdin, Stdout = Some OsStdout, Stderr = Some OsStderr\<rparr> ''fail''))
     = Fail ''Process exited with status 1'' \<and>
   fst (Start envFailLine plainShell ''fail'' world0) = Return None \<and>
   trace (snd (Start envFailLine plainShell ''fail'' world0)) =
     [NewSession,
      SessionRun \<lparr>sid = 0, Stdin = Some OsStdin, Stdout = Some OsStdout, Stderr = Some OsStderr\<rparr> ''fail'',
      SessionShell \<lparr>sid = 0, Stdin = Some OsStdin, Stdout = Some OsStdout, Stderr = Some OsStderr\<rparr>,
      SessionWait \<lparr>sid = 0, Stdin = Some OsStdin, Stdout = Some OsStdout, Stderr = Some OsStderr\<rparr>,
      SessionClose \<lparr>sid = 0, Stdin = Some OsStdin, Stdout = Some OsStdout, Stderr = Some OsStderr\<rparr>]"
proof -
  have f: "res (envFailLine [NewSession]
         (SessionRun \<lparr>sid = 0, Stdin = Some OsStdin, Stdout = Some OsStdout, Stderr = Some OsStderr\<rparr> ''fail''))
     = Fail ''Process exited with status 1''"
    by (simp add: envFailLine_def)
  have h: "''fail'' \<noteq> [] \<and> remoteShell.client plainShell \<noteq> None \<and> \<not> requestPty plainShell \<and>
    (\<forall>h s. res (envFailLine h (SessionRun s ''fail'')) = Fail ''Process exited with status 1'') \<and>
    (\<forall>h c. (\<forall>s. c \<noteq> SessionRun s ''fail'') \<longrightarrow> res (envFailLine h c) = Ok)"
    by (auto simp: plainShell_def envFailLine_def split: call.splits)
  from Start_discards_command_error [of envFailLine plainShell "''fail''" world0 "''Process exited with status 1''"] h
  have "fst (Start envFailLine plainShell ''fail'' world0) = Return None \<and>
      trace (snd (Start envFailLine plainShell ''fail'' world0)) =
        (let s = setupStreams plainShell \<lparr>sid = nextSession world0, Stdin = None, Stdout = None, Stderr = None\<rparr>
         in trace world0 @ [NewSession, SessionRun s ''fail'', SessionShell s, SessionWait s, SessionClose s])"
    by blast
  with f show ?thesis
    by (simp add: Let_def plainShell_def setupStreams_def world0_def)
qed

section \<open>What the private buffers hold\<close>
















end
